theory Spec2Isabelle
  imports Complex_Main
begin

section \<open>Python and numpy primitives\<close>

text \<open>
  Python floats are modelled by the reals: rounding is idealised, every finite value is a
  real number. The one special value that this program can produce, numpy's not-a-number,
  is a constructor of its own.
\<close>

datatype npfloat = Fin real | NaN

text \<open>\<^verbatim>\<open>x > 0\<close> on a float: every comparison with not-a-number is false.\<close>

fun gt0 :: "npfloat \<Rightarrow> bool" where
  "gt0 (Fin x) = (0 < x)"
| "gt0 NaN = False"

fun fin_val :: "npfloat \<Rightarrow> real" where
  "fin_val (Fin x) = x"
| "fin_val NaN = 0"

text \<open>\<^verbatim>\<open>int(x)\<close> on a float truncates towards zero.\<close>

definition py_int :: "real \<Rightarrow> int" where
  "py_int x = (if 0 \<le> x then \<lfloor>x\<rfloor> else \<lceil>x\<rceil>)"

text \<open>\<^verbatim>\<open>round(x)\<close> with one argument: the nearest integer, a tie goes to the even one.\<close>

definition py_round :: "real \<Rightarrow> int" where
  "py_round x =
     (let f = \<lfloor>x\<rfloor>; d = x - of_int f
      in if d < 1 / 2 then f else if 1 / 2 < d then f + 1
         else if even f then f else f + 1)"

text \<open>\<^verbatim>\<open>np.mean(values)\<close>, called by the program on non-empty lists only.\<close>

definition np_mean :: "real list \<Rightarrow> real" where
  "np_mean values = sum_list values / real (length values)"

text \<open>
  \<^verbatim>\<open>np.random.random()\<close> draws from the half-open interval from 0 to 1. The generator
  is a stream of draws; a call takes the head and leaves the tail.
\<close>

type_synonym rng = "nat \<Rightarrow> real"

definition random :: "rng \<Rightarrow> real \<times> rng" where
  "random g = (g 0, \<lambda>n. g (Suc n))"

text \<open>\<^verbatim>\<open>m.get(key, default)\<close> on a dictionary.\<close>

definition dict_get :: "('k \<rightharpoonup> 'v) \<Rightarrow> 'k \<Rightarrow> 'v \<Rightarrow> 'v" where
  "dict_get m k d = (case m k of None \<Rightarrow> d | Some v \<Rightarrow> v)"

section \<open>Evaluator\<close>

record thresholds =
  good :: "real \<times> real"
  excellent :: "real \<times> real"

definition elbow_angle_thresholds :: thresholds where
  "elbow_angle_thresholds = \<lparr>good = (90, 135), excellent = (105, 125)\<rparr>"

definition spine_lean_thresholds :: thresholds where
  "spine_lean_thresholds = \<lparr>good = (10, 30), excellent = (15, 25)\<rparr>"

definition foot_angle_thresholds :: thresholds where
  "foot_angle_thresholds = \<lparr>good = (15, 45), excellent = (20, 35)\<rparr>"

text \<open>\<^verbatim>\<open>_score_metric\<close>: the draw happens only inside a band, as in the source.\<close>

definition score_metric :: "real \<Rightarrow> thresholds \<Rightarrow> rng \<Rightarrow> int \<times> rng" where
  "score_metric v th g =
     (if v = 0 then (1, g)
      else
        let excellent_range = excellent th; good_range = good th
        in if fst excellent_range \<le> v \<and> v \<le> snd excellent_range
           then (let (r, g') = random g in (9 + py_int (r * 2), g'))
           else if fst good_range \<le> v \<and> v \<le> snd good_range
           then (let (r, g') = random g in (6 + py_int (r * 3), g'))
           else
             let excellent_center = (fst excellent_range + snd excellent_range) / 2;
                 distance = \<bar>v - excellent_center\<bar>
             in (max 1 (6 - py_int (distance / 10)), g))"

definition get_footwork_feedback :: "real \<Rightarrow> string list" where
  "get_footwork_feedback foot_angle =
     (if foot_angle < 15 then [''Try to point your front foot more towards the target'']
      else if 45 < foot_angle
      then [''Front foot is pointing too wide, align more towards the pitch'']
      else [''Good foot positioning towards the target''])
     @ [''Focus on balanced weight transfer during the shot'']"

definition get_head_feedback :: "real \<Rightarrow> string list" where
  "get_head_feedback head_alignment =
     (if 2 / 10 < head_alignment
      then [''Keep your head more directly over your front knee'',
            ''This will improve balance and shot accuracy'']
      else [''Excellent head position over the front knee''])"

definition get_swing_feedback :: "real \<Rightarrow> string list" where
  "get_swing_feedback elbow_angle =
     (if elbow_angle < 90 then [''Try to keep your front elbow higher during the shot'']
      else if 135 < elbow_angle
      then [''Front elbow is too high, lower it slightly for better control'']
      else [''Good elbow positioning for controlled swing''])
     @ [''Maintain smooth acceleration through the ball'']"

definition get_balance_feedback :: "real \<Rightarrow> string list" where
  "get_balance_feedback spine_lean =
     (if spine_lean < 10 then [''Lean slightly forward for better balance and power'']
      else if 30 < spine_lean then [''Reduce forward lean to maintain better balance'']
      else [''Good spine angle for balanced shot execution''])"

definition get_followthrough_feedback :: "int \<Rightarrow> string list" where
  "get_followthrough_feedback score =
     (if 8 \<le> score
      then [''Excellent overall technique'', ''Continue practicing for consistency'']
      else if 6 \<le> score
      then [''Good technique with room for refinement'', ''Focus on identified weak areas'']
      else [''Technique needs improvement'', ''Practice basic fundamentals regularly''])"

record 'a categories =
  footwork :: 'a
  head_position :: 'a
  swing_control :: 'a
  balance :: 'a
  follow_through :: 'a

record metrics =
  elbow_angle :: real
  spine_lean :: real
  head_alignment :: real
  foot_angle :: real

record evaluation =
  scores :: "int categories"
  feedback :: "string list categories"
  metrics_summary :: metrics

definition incomplete_line :: string where
  "incomplete_line = ''Analysis incomplete - please ensure clear video quality''"

definition default_evaluation :: evaluation where
  "default_evaluation =
     \<lparr>scores = \<lparr>footwork = 5, head_position = 5, swing_control = 5, balance = 5,
                 follow_through = 5\<rparr>,
      feedback = \<lparr>footwork = [incomplete_line], head_position = [incomplete_line],
                   swing_control = [incomplete_line], balance = [incomplete_line],
                   follow_through = [incomplete_line]\<rparr>,
      metrics_summary = \<lparr>elbow_angle = 0, spine_lean = 0, head_alignment = 0,
                          foot_angle = 0\<rparr>\<rparr>"

text \<open>A frame's metrics are a dictionary from the metric's name to a float.\<close>

type_synonym frame_metrics = "string \<rightharpoonup> npfloat"

text \<open>
  One round of the averaging loop of \<^verbatim>\<open>evaluate_technique\<close>: the values of one metric
  that are greater than zero (a missing key reads as 0), and their mean, or 0 when there
  are none.
\<close>

definition positive_values :: "frame_metrics list \<Rightarrow> string \<Rightarrow> real list" where
  "positive_values all_metrics metric =
     map (\<lambda>m. fin_val (dict_get m metric (Fin 0)))
       (filter (\<lambda>m. gt0 (dict_get m metric (Fin 0))) all_metrics)"

definition avg_metric :: "frame_metrics list \<Rightarrow> string \<Rightarrow> real" where
  "avg_metric all_metrics metric =
     (let values = positive_values all_metrics metric
      in if values \<noteq> [] then np_mean values else 0)"

definition avg_metrics :: "frame_metrics list \<Rightarrow> metrics" where
  "avg_metrics all_metrics =
     \<lparr>elbow_angle = avg_metric all_metrics ''elbow_angle'',
      spine_lean = avg_metric all_metrics ''spine_lean'',
      head_alignment = avg_metric all_metrics ''head_alignment'',
      foot_angle = avg_metric all_metrics ''foot_angle''\<rparr>"

text \<open>The head score of \<^verbatim>\<open>evaluate_technique\<close>, before and after rounding.\<close>

definition head_score :: "real \<Rightarrow> int" where
  "head_score a = py_round (max 1 (min 10 (10 - a * 10)))"

definition evaluate_technique :: "frame_metrics list \<Rightarrow> rng \<Rightarrow> evaluation \<times> rng" where
  "evaluate_technique all_metrics g =
     (if all_metrics = [] then (default_evaluation, g)
      else
        let avg = avg_metrics all_metrics;
            (foot_score, g1) = score_metric (foot_angle avg) foot_angle_thresholds g;
            head = head_score (head_alignment avg);
            (swing_score, g2) = score_metric (elbow_angle avg) elbow_angle_thresholds g1;
            (balance_score, g3) = score_metric (spine_lean avg) spine_lean_thresholds g2;
            follow_through_score =
              py_round (np_mean (map of_int [foot_score, head, swing_score, balance_score]))
        in (\<lparr>scores = \<lparr>footwork = foot_score, head_position = head,
                        swing_control = swing_score, balance = balance_score,
                        follow_through = follow_through_score\<rparr>,
             feedback = \<lparr>footwork = get_footwork_feedback (foot_angle avg),
                          head_position = get_head_feedback (head_alignment avg),
                          swing_control = get_swing_feedback (elbow_angle avg),
                          balance = get_balance_feedback (spine_lean avg),
                          follow_through = get_followthrough_feedback follow_through_score\<rparr>,
             metrics_summary = avg\<rparr>, g3))"

section \<open>MetricComputer\<close>

text \<open>
  A joint is the list \<^verbatim>\<open>[x, y, z]\<close> that \<^verbatim>\<open>extract_pose_landmarks\<close> builds: three
  coordinates, of which the metrics read the first two.
\<close>

type_synonym point = "real \<times> real \<times> real"

definition px :: "point \<Rightarrow> real" where
  "px p = fst p"

definition py :: "point \<Rightarrow> real" where
  "py p = fst (snd p)"

text \<open>\<^verbatim>\<open>math.atan2(y, x)\<close> and \<^verbatim>\<open>math.degrees\<close>.\<close>

definition atan2 :: "real \<Rightarrow> real \<Rightarrow> real" where
  "atan2 y x =
     (if 0 < x then arctan (y / x)
      else if x < 0 then (if 0 \<le> y then arctan (y / x) + pi else arctan (y / x) - pi)
      else if 0 < y then pi / 2
      else if y < 0 then - (pi / 2)
      else 0)"

definition degrees :: "real \<Rightarrow> real" where
  "degrees r = r * 180 / pi"

definition np_dot :: "real \<times> real \<Rightarrow> real \<times> real \<Rightarrow> real" where
  "np_dot v w = fst v * fst w + snd v * snd w"

definition np_norm :: "real \<times> real \<Rightarrow> real" where
  "np_norm v = sqrt ((fst v)\<^sup>2 + (snd v)\<^sup>2)"

text \<open>
  \<^verbatim>\<open>np.clip(num / den, -1.0, 1.0)\<close> on numpy floats. Dividing by zero raises nothing
  in numpy: it warns and gives not-a-number for 0/0 and an infinity for any other
  numerator; the clip keeps not-a-number and brings an infinity back to the bound.
\<close>

definition clipped_quotient :: "real \<Rightarrow> real \<Rightarrow> npfloat" where
  "clipped_quotient num den =
     (if den \<noteq> 0 then Fin (min (max (num / den) (- 1)) 1)
      else if num = 0 then NaN
      else if 0 < num then Fin 1 else Fin (- 1))"

text \<open>\<^verbatim>\<open>np.arccos\<close> followed by \<^verbatim>\<open>math.degrees\<close>; both keep not-a-number.\<close>

fun arccos_degrees :: "npfloat \<Rightarrow> npfloat" where
  "arccos_degrees (Fin c) = Fin (degrees (arccos c))"
| "arccos_degrees NaN = NaN"

text \<open>
  \<^verbatim>\<open>calculate_angle\<close>. No step of the body raises on three joints, so the handler that
  would return 0.0 is never entered.
\<close>

definition calculate_angle :: "point \<Rightarrow> point \<Rightarrow> point \<Rightarrow> npfloat" where
  "calculate_angle point1 point2 point3 =
     (let v1 = (px point1 - px point2, py point1 - py point2);
          v2 = (px point3 - px point2, py point3 - py point2);
          cos_angle = clipped_quotient (np_dot v1 v2) (np_norm v1 * np_norm v2)
      in arccos_degrees cos_angle)"

text \<open>\<^verbatim>\<open>calculate_spine_lean\<close>; again nothing in the body raises.\<close>

definition calculate_spine_lean :: "point \<Rightarrow> point \<Rightarrow> real" where
  "calculate_spine_lean hip shoulder =
     (let dx = px shoulder - px hip;
          dy = py shoulder - py hip;
          angle_from_horizontal = degrees (atan2 \<bar>dy\<bar> \<bar>dx\<bar>)
      in \<bar>90 - angle_from_horizontal\<bar>)"

text \<open>
  \<^verbatim>\<open>calculate_head_alignment\<close>: dividing a Python float by the integer 0 raises, and the
  handler returns 1.0.
\<close>

definition calculate_head_alignment :: "point \<Rightarrow> point \<Rightarrow> int \<Rightarrow> real" where
  "calculate_head_alignment head knee frame_width =
     (let head_x = px head * of_int frame_width;
          knee_x = px knee * of_int frame_width
      in if frame_width = 0 then 1 else \<bar>head_x - knee_x\<bar> / of_int frame_width)"

text \<open>
  \<^verbatim>\<open>calculate_foot_angle\<close>: the second argument may be falsy (\<^verbatim>\<open>None\<close> or an empty
  list), which is \<open>None\<close> here; both differences are 0 then.
\<close>

definition calculate_foot_angle :: "point \<Rightarrow> point option \<Rightarrow> real" where
  "calculate_foot_angle ankle toe =
     (let dx = (case toe of None \<Rightarrow> 0 | Some t \<Rightarrow> px t - px ankle);
          dy = (case toe of None \<Rightarrow> 0 | Some t \<Rightarrow> py t - py ankle)
      in degrees (atan2 \<bar>dy\<bar> \<bar>dx\<bar>))"

section \<open>Per-frame pipeline\<close>

text \<open>
  The pose of a frame is a dictionary from joint names to points, kept as an association
  list. \<^verbatim>\<open>extract_pose_landmarks\<close> reads the landmarks 0 and 11 to 28; on a shorter list
  the first missing index raises IndexError.
\<close>

type_synonym pose_points = "(string \<times> point) list"

definition index_error_text :: string where
  "index_error_text = ''list index out of range''"

definition extract_pose_landmarks :: "point list option \<Rightarrow> string + pose_points" where
  "extract_pose_landmarks pose_landmarks =
     (case pose_landmarks of
        None \<Rightarrow> Inr []
      | Some landmarks \<Rightarrow>
          if length landmarks \<le> 28 then Inl index_error_text
          else Inr
            [(''nose'', landmarks ! 0),
             (''left_shoulder'', landmarks ! 11), (''right_shoulder'', landmarks ! 12),
             (''left_elbow'', landmarks ! 13), (''right_elbow'', landmarks ! 14),
             (''left_wrist'', landmarks ! 15), (''right_wrist'', landmarks ! 16),
             (''left_hip'', landmarks ! 23), (''right_hip'', landmarks ! 24),
             (''left_knee'', landmarks ! 25), (''right_knee'', landmarks ! 26),
             (''left_ankle'', landmarks ! 27), (''right_ankle'', landmarks ! 28)])"

definition default_metrics :: frame_metrics where
  "default_metrics =
     [''elbow_angle'' \<mapsto> Fin 0, ''spine_lean'' \<mapsto> Fin 0,
      ''head_alignment'' \<mapsto> Fin 1, ''foot_angle'' \<mapsto> Fin 0]"

definition required_joints :: "string list" where
  "required_joints =
     [''left_shoulder'', ''left_elbow'', ''left_wrist'', ''left_hip'', ''left_knee'',
      ''left_ankle'', ''nose'']"

text \<open>
  \<^verbatim>\<open>analyze_biomechanics\<close>: a missing joint raises KeyError inside the try block, and the
  handler replaces the whole dictionary by the defaults.
\<close>

definition analyze_biomechanics :: "pose_points \<Rightarrow> int \<Rightarrow> frame_metrics" where
  "analyze_biomechanics pose_points frame_width =
     (if list_all (\<lambda>k. map_of pose_points k \<noteq> None) required_joints
      then
        let front_shoulder = the (map_of pose_points ''left_shoulder'');
            front_elbow = the (map_of pose_points ''left_elbow'');
            front_wrist = the (map_of pose_points ''left_wrist'');
            front_hip = the (map_of pose_points ''left_hip'');
            front_knee = the (map_of pose_points ''left_knee'');
            front_ankle = the (map_of pose_points ''left_ankle'');
            nose = the (map_of pose_points ''nose'')
        in [''elbow_angle'' \<mapsto> calculate_angle front_shoulder front_elbow front_wrist,
            ''spine_lean'' \<mapsto> Fin (calculate_spine_lean front_hip front_shoulder),
            ''head_alignment'' \<mapsto> Fin (calculate_head_alignment nose front_knee frame_width),
            ''foot_angle'' \<mapsto> Fin (calculate_foot_angle front_ankle (Some front_knee))]
      else default_metrics)"

section \<open>Analysis of a video file\<close>

text \<open>
  What reading one frame gives: an exception (of the colour conversion or of the pose
  estimator) with its text, or the estimator's landmarks, \<open>None\<close> when it saw no pose.
\<close>

datatype frame = FrameError string | Frame "point list option"

record video =
  frame_count :: int
  fps :: real
  frame_width :: int
  frames :: "frame list"

text \<open>A path of the file system holds a video that OpenCV opens, or something it does not.\<close>

datatype file_content = Video video | NotVideo

record video_info =
  frames_total :: int
  frames_processed :: nat
  frames_with_pose :: nat
  info_fps :: real
  duration_seconds :: real

record output_files =
  evaluation_json :: string
  input_video :: string

record analysis =
  evaluation :: evaluation
  video_info :: video_info
  output_files :: output_files

text \<open>The \<^verbatim>\<open>while True\<close> loop over the frames of the capture.\<close>

fun frame_loop ::
  "frame list \<Rightarrow> int \<Rightarrow> frame_metrics list \<Rightarrow> nat \<Rightarrow> string + (frame_metrics list \<times> nat)"
where
  "frame_loop [] w all_metrics n = Inr (all_metrics, n)"
| "frame_loop (FrameError msg # fs) w all_metrics n = Inl msg"
| "frame_loop (Frame None # fs) w all_metrics n = frame_loop fs w all_metrics (Suc n)"
| "frame_loop (Frame (Some landmarks) # fs) w all_metrics n =
     (case extract_pose_landmarks (Some landmarks) of
        Inl msg \<Rightarrow> Inl msg
      | Inr pose_points \<Rightarrow>
          if pose_points \<noteq> []
          then frame_loop fs w (all_metrics @ [analyze_biomechanics pose_points w]) (Suc n)
          else frame_loop fs w all_metrics (Suc n))"

definition analysis_failed :: "string \<Rightarrow> string" where
  "analysis_failed msg = ''Video analysis failed: '' @ msg"

text \<open>
  \<^verbatim>\<open>analyze_video_file\<close>. Every exception of the body is caught and raised again with
  the prefix; \<open>Inl\<close> carries the text of the exception that leaves the function.
  \<open>save_error\<close> is the outcome of writing the evaluation file: \<open>None\<close> when it is
  written, the exception's text otherwise.
\<close>

definition analyze_video_file ::
  "(string \<rightharpoonup> file_content) \<Rightarrow> string option \<Rightarrow> string \<Rightarrow> rng \<Rightarrow> string \<Rightarrow>
     string + (analysis \<times> rng)"
where
  "analyze_video_file fs save_error output_file g video_path =
     (case fs video_path of
        None \<Rightarrow> Inl (analysis_failed (''Video file not found: '' @ video_path))
      | Some NotVideo \<Rightarrow> Inl (analysis_failed ''Could not open video file'')
      | Some (Video cap) \<Rightarrow>
          (case frame_loop (frames cap) (frame_width cap) [] 0 of
             Inl msg \<Rightarrow> Inl (analysis_failed msg)
           | Inr (all_metrics, n) \<Rightarrow>
               let (ev, g') = evaluate_technique all_metrics g
               in case save_error of
                    Some msg \<Rightarrow> Inl (analysis_failed msg)
                  | None \<Rightarrow>
                      Inr (\<lparr>evaluation = ev,
                            video_info =
                              \<lparr>frames_total = frame_count cap, frames_processed = n,
                               frames_with_pose = length all_metrics, info_fps = fps cap,
                               duration_seconds =
                                 (if 0 < fps cap then of_int (frame_count cap) / fps cap
                                  else 0)\<rparr>,
                            output_files =
                              \<lparr>evaluation_json = output_file, input_video = video_path\<rparr>\<rparr>,
                           g')))"

section \<open>Job records and the job runner\<close>

text \<open>
  A record of \<^verbatim>\<open>analysis_results\<close>. A key that a record may lack, or whose value may
  be \<^verbatim>\<open>None\<close>, is an option. Times are readings of the clock.
\<close>

record job =
  analysis_id :: string
  status :: string
  video_source :: "string option"
  filename :: "string option"
  video_url :: "string option"
  created_at :: nat
  completed_at :: "nat option"
  error_message :: "string option"
  job_scores :: "int categories option"
  job_feedback :: "string list categories option"
  job_metrics_summary :: "metrics option"
  job_output_files :: "output_files option"
  job_video_info :: "video_info option"

type_synonym job_store = "string \<rightharpoonup> job"

text \<open>The records that the two submitting endpoints create.\<close>

definition uploaded_job :: "string \<Rightarrow> string \<Rightarrow> nat \<Rightarrow> job" where
  "uploaded_job aid name t =
     \<lparr>analysis_id = aid, status = ''initiated'', video_source = Some ''uploaded'',
      filename = Some name, video_url = None, created_at = t, completed_at = None,
      error_message = None, job_scores = None, job_feedback = None,
      job_metrics_summary = None, job_output_files = None, job_video_info = None\<rparr>"

definition url_job :: "string \<Rightarrow> string \<Rightarrow> nat \<Rightarrow> job" where
  "url_job aid url t =
     \<lparr>analysis_id = aid, status = ''initiated'', video_source = None,
      filename = None, video_url = Some url, created_at = t, completed_at = None,
      error_message = None, job_scores = None, job_feedback = None,
      job_metrics_summary = None, job_output_files = None, job_video_info = None\<rparr>"

text \<open>
  The three writes of \<^verbatim>\<open>process_video_analysis\<close>. Each is one statement on the
  dictionary, with no \<^verbatim>\<open>await\<close> inside; \<open>None\<close> is the KeyError of a missing id.
\<close>

definition set_processing :: "job_store \<Rightarrow> string \<Rightarrow> job_store option" where
  "set_processing store aid =
     (case store aid of
        None \<Rightarrow> None
      | Some j \<Rightarrow> Some (store(aid \<mapsto> j\<lparr>status := ''processing''\<rparr>)))"

definition write_completed :: "job_store \<Rightarrow> string \<Rightarrow> analysis \<Rightarrow> nat \<Rightarrow> job_store option" where
  "write_completed store aid result t =
     (case store aid of
        None \<Rightarrow> None
      | Some j \<Rightarrow>
          Some (store(aid \<mapsto>
            j\<lparr>status := ''completed'',
              job_scores := Some (scores (evaluation result)),
              job_feedback := Some (feedback (evaluation result)),
              job_metrics_summary := Some (metrics_summary (evaluation result)),
              completed_at := Some t,
              job_output_files := Some (output_files result),
              job_video_info := Some (video_info result)\<rparr>)))"

definition write_failed :: "job_store \<Rightarrow> string \<Rightarrow> string \<Rightarrow> nat \<Rightarrow> job_store option" where
  "write_failed store aid msg t =
     (case store aid of
        None \<Rightarrow> None
      | Some j \<Rightarrow>
          Some (store(aid \<mapsto>
            j\<lparr>status := ''failed'', error_message := Some msg, completed_at := Some t\<rparr>)))"

text \<open>
  What the runner meets outside the program: the file system, the outcome of writing the
  evaluation file and its name, the outcome of the insert into the database and of
  removing the upload (\<open>None\<close> or \<open>True\<close> when the call returns, the exception's text
  or \<open>False\<close> when it raises), and the clock, read once per call of \<^verbatim>\<open>utcnow\<close>.
\<close>

record env =
  files :: "string \<rightharpoonup> file_content"
  save_error :: "string option"
  output_file :: string
  db_error :: "string option"
  remove_ok :: bool
  utcnow :: "nat \<Rightarrow> nat"

text \<open>
  What a run leaves: whether an exception left the coroutine, the job store and the
  file system.
\<close>

record outcome =
  escaped :: bool
  final_store :: job_store
  final_files :: "string \<rightharpoonup> file_content"

text \<open>
  The handler of \<^verbatim>\<open>process_video_analysis\<close>: the failure is written to the record, then
  an upload that still exists is removed, and an exception of the removal is dropped.
\<close>

definition on_failure ::
  "env \<Rightarrow> job_store \<Rightarrow> string \<Rightarrow> string \<Rightarrow> bool \<Rightarrow> string \<Rightarrow> nat \<Rightarrow> outcome"
where
  "on_failure e store aid video_path is_uploaded msg t =
     (case write_failed store aid msg t of
        None \<Rightarrow> \<lparr>escaped = True, final_store = store, final_files = files e\<rparr>
      | Some store' \<Rightarrow>
          \<lparr>escaped = False, final_store = store',
           final_files =
             (if is_uploaded \<and> files e video_path \<noteq> None
              then (if remove_ok e then (files e)(video_path := None) else files e)
              else files e)\<rparr>)"

text \<open>\<^verbatim>\<open>str(e)\<close> of the KeyError that a missing id raises.\<close>

definition key_error_text :: "string \<Rightarrow> string" where
  "key_error_text k = [CHR 0x27] @ k @ [CHR 0x27]"

definition process_video_analysis ::
  "env \<Rightarrow> rng \<Rightarrow> job_store \<Rightarrow> string \<Rightarrow> string \<Rightarrow> bool \<Rightarrow> outcome"
where
  "process_video_analysis e g store aid video_path is_uploaded =
     (case set_processing store aid of
        None \<Rightarrow>
          on_failure e store aid video_path is_uploaded (key_error_text aid) (utcnow e 0)
      | Some store1 \<Rightarrow>
          (case analyze_video_file (files e) (save_error e) (output_file e) g video_path of
             Inl msg \<Rightarrow> on_failure e store1 aid video_path is_uploaded msg (utcnow e 0)
           | Inr (result, g') \<Rightarrow>
               (case write_completed store1 aid result (utcnow e 0) of
                  None \<Rightarrow>
                    on_failure e store1 aid video_path is_uploaded (key_error_text aid)
                      (utcnow e 0)
                | Some store2 \<Rightarrow>
                    (case db_error e of
                       None \<Rightarrow>
                         \<lparr>escaped = False, final_store = store2, final_files = files e\<rparr>
                     | Some msg \<Rightarrow>
                         on_failure e store2 aid video_path is_uploaded msg (utcnow e 1)))))"

section \<open>The job store as pollers see it\<close>

text \<open>
  The endpoints and the runners are coroutines of one event loop: control changes hands
  at an \<^verbatim>\<open>await\<close> only. A runner is therefore a sequence of atomic segments, the code
  between two awaits, and a poller reads the store between two segments. The position of
  each runner is the await it is suspended at.
\<close>

datatype position = Scheduled | AwaitAnalysis | AwaitInsert | Returned

record system =
  sys_store :: job_store
  runners :: "string \<rightharpoonup> position"

definition initial_system :: system where
  "initial_system = \<lparr>sys_store = Map.empty, runners = Map.empty\<rparr>"

inductive step :: "system \<Rightarrow> system \<Rightarrow> bool" where
  submit_upload:
    "sys_store s aid = None \<Longrightarrow>
     step s \<lparr>sys_store = (sys_store s)(aid \<mapsto> uploaded_job aid name t),
             runners = (runners s)(aid \<mapsto> Scheduled)\<rparr>"
| submit_url:
    "sys_store s aid = None \<Longrightarrow>
     step s \<lparr>sys_store = (sys_store s)(aid \<mapsto> url_job aid url t),
             runners = (runners s)(aid \<mapsto> Scheduled)\<rparr>"
| begin_run:
    "runners s aid = Some Scheduled \<Longrightarrow> set_processing (sys_store s) aid = Some st \<Longrightarrow>
     step s \<lparr>sys_store = st, runners = (runners s)(aid \<mapsto> AwaitAnalysis)\<rparr>"
| analysis_returns:
    "runners s aid = Some AwaitAnalysis \<Longrightarrow>
     write_completed (sys_store s) aid result t = Some st \<Longrightarrow>
     step s \<lparr>sys_store = st, runners = (runners s)(aid \<mapsto> AwaitInsert)\<rparr>"
| analysis_raises:
    "runners s aid = Some AwaitAnalysis \<Longrightarrow>
     write_failed (sys_store s) aid msg t = Some st \<Longrightarrow>
     step s \<lparr>sys_store = st, runners = (runners s)(aid \<mapsto> Returned)\<rparr>"
| insert_returns:
    "runners s aid = Some AwaitInsert \<Longrightarrow>
     step s \<lparr>sys_store = sys_store s, runners = (runners s)(aid \<mapsto> Returned)\<rparr>"
| insert_raises:
    "runners s aid = Some AwaitInsert \<Longrightarrow>
     write_failed (sys_store s) aid msg t = Some st \<Longrightarrow>
     step s \<lparr>sys_store = st, runners = (runners s)(aid \<mapsto> Returned)\<rparr>"

inductive reachable :: "system \<Rightarrow> bool" where
  start: "reachable initial_system"
| later: "reachable s \<Longrightarrow> step s s' \<Longrightarrow> reachable s'"

text \<open>What a poller that reads \<open>completed\<close> must find in the same record.\<close>

definition result_attached :: "job \<Rightarrow> bool" where
  "result_attached j =
     (job_scores j \<noteq> None \<and> job_feedback j \<noteq> None \<and> job_metrics_summary j \<noteq> None)"

text \<open>No part of a result is in the record.\<close>

definition no_result :: "job \<Rightarrow> bool" where
  "no_result j =
     (job_scores j = None \<and> job_feedback j = None \<and> job_metrics_summary j = None)"

text \<open>What a poller finds in the answer to one request: the record may be missing.\<close>

definition shows_completed :: "job option \<Rightarrow> bool" where
  "shows_completed r = (case r of None \<Rightarrow> False | Some j \<Rightarrow> status j = ''completed'')"

definition shows_result :: "job option \<Rightarrow> bool" where
  "shows_result r = (case r of None \<Rightarrow> False | Some j \<Rightarrow> result_attached j)"

text \<open>
  The await a runner is suspended at fixes what its record shows. After a return the
  record is completed with its result, or failed: without a result when the analysis
  raised, with it when the insert raised.
\<close>

fun position_agrees :: "position \<Rightarrow> job \<Rightarrow> bool" where
  "position_agrees Scheduled j = (status j = ''initiated'' \<and> no_result j)"
| "position_agrees AwaitAnalysis j = (status j = ''processing'' \<and> no_result j)"
| "position_agrees AwaitInsert j = (status j = ''completed'' \<and> result_attached j)"
| "position_agrees Returned j =
     ((status j = ''completed'' \<and> result_attached j) \<or>
      (status j = ''failed'' \<and> (no_result j \<or> result_attached j)))"

definition runner_invariant :: "system \<Rightarrow> bool" where
  "runner_invariant s =
     (\<forall>aid j. sys_store s aid = Some j \<longrightarrow>
        (\<exists>p. runners s aid = Some p \<and> position_agrees p j))"

text \<open>\<^verbatim>\<open>get_analysis_result\<close>: the record as it is in the store; \<open>None\<close> is the 404.\<close>

definition get_analysis_result :: "job_store \<Rightarrow> string \<Rightarrow> job option" where
  "get_analysis_result store aid = store aid"

section \<open>The specification's own formulations\<close>

text \<open>
  The mean over the records whose value for a field is greater than zero, by the
  positions of these records in the sequence; 0 when there is no such record.
\<close>

definition field_values :: "frame_metrics list \<Rightarrow> string \<Rightarrow> npfloat list" where
  "field_values all_metrics metric = map (\<lambda>m. dict_get m metric (Fin 0)) all_metrics"

definition spec_field_mean :: "npfloat list \<Rightarrow> real" where
  "spec_field_mean vs =
     (let idx = filter (\<lambda>i. gt0 (vs ! i)) [0..<length vs]
      in if idx = [] then 0 else (\<Sum>i\<leftarrow>idx. fin_val (vs ! i)) / real (length idx))"

text \<open>Clamping a value into a closed interval.\<close>

definition spec_clamp :: "real \<Rightarrow> real \<Rightarrow> real \<Rightarrow> real" where
  "spec_clamp x lo hi = (if x < lo then lo else if hi < x then hi else x)"

text \<open>
  The feedback line of the default evaluation as the specification words it; the dash is
  U+2014, three bytes in UTF-8.
\<close>

definition spec_incomplete_line :: string where
  "spec_incomplete_line =
     ''analysis incomplete '' @ [CHR 0xE2, CHR 0x80, CHR 0x94] @ '' ensure clear video quality''"

text \<open>
  A frame yields landmarks when the estimator returns some; reading or processing it may
  instead raise. A video in which no frame yields landmarks, and one in which no frame
  raises.
\<close>

fun has_landmarks :: "frame \<Rightarrow> bool" where
  "has_landmarks (Frame (Some landmarks)) = True"
| "has_landmarks (Frame None) = False"
| "has_landmarks (FrameError msg) = False"

fun frame_raises :: "frame \<Rightarrow> bool" where
  "frame_raises (FrameError msg) = True"
| "frame_raises (Frame pose_landmarks) = False"

definition no_landmarks :: "frame list \<Rightarrow> bool" where
  "no_landmarks fs = list_all (\<lambda>f. \<not> has_landmarks f) fs"

definition no_frame_error :: "frame list \<Rightarrow> bool" where
  "no_frame_error fs = list_all (\<lambda>f. \<not> frame_raises f) fs"


section \<open>Concrete inputs\<close>

definition half :: rng where
  "half = (\<lambda>_. 1 / 2)"

definition test_frames :: "frame_metrics list" where
  "test_frames =
     [[''elbow_angle'' \<mapsto> Fin 115, ''spine_lean'' \<mapsto> Fin 20,
       ''head_alignment'' \<mapsto> Fin (15 / 100), ''foot_angle'' \<mapsto> Fin 30],
      [''elbow_angle'' \<mapsto> NaN, ''spine_lean'' \<mapsto> Fin 0,
       ''head_alignment'' \<mapsto> Fin 1, ''foot_angle'' \<mapsto> Fin 0],
      [''elbow_angle'' \<mapsto> Fin 120, ''spine_lean'' \<mapsto> Fin 22,
       ''head_alignment'' \<mapsto> Fin (35 / 100), ''foot_angle'' \<mapsto> Fin 28]]"

definition blank_clip :: video where
  "blank_clip =
     \<lparr>frame_count = 2, fps = 30, frame_width = 640, frames = [Frame None, Frame None]\<rparr>"

definition broken_clip :: video where
  "broken_clip =
     \<lparr>frame_count = 2, fps = 30, frame_width = 640,
      frames = [Frame None, FrameError ''Unsupported image format'']\<rparr>"

definition quiet_env :: env where
  "quiet_env =
     \<lparr>files = [''uploaded_a.mp4'' \<mapsto> Video blank_clip], save_error = None,
      output_file = ''evaluation.json'', db_error = None, remove_ok = True,
      utcnow = (\<lambda>n. 100 + n)\<rparr>"

definition one_job :: job_store where
  "one_job = [''a'' \<mapsto> uploaded_job ''a'' ''shot.mp4'' 7]"

definition blank_analysis :: analysis where
  "blank_analysis =
     \<lparr>evaluation = default_evaluation,
      video_info = \<lparr>frames_total = 2, frames_processed = 2, frames_with_pose = 0,
                    info_fps = 30, duration_seconds = 1 / 15\<rparr>,
      output_files =
        \<lparr>evaluation_json = ''evaluation.json'', input_video = ''uploaded_a.mp4''\<rparr>\<rparr>"

definition processing_system :: system where
  "processing_system =
     \<lparr>sys_store = [''a'' \<mapsto> (uploaded_job ''a'' ''shot.mp4'' 7)\<lparr>status := ''processing''\<rparr>],
      runners = [''a'' \<mapsto> AwaitAnalysis]\<rparr>"

definition polled_system :: system where
  "polled_system =
     \<lparr>sys_store =
        [''a'' \<mapsto> (uploaded_job ''a'' ''shot.mp4'' 7)
           \<lparr>status := ''completed'',
            job_scores := Some (scores default_evaluation),
            job_feedback := Some (feedback default_evaluation),
            job_metrics_summary := Some (metrics_summary default_evaluation),
            completed_at := Some 100,
            job_output_files := Some (output_files blank_analysis),
            job_video_info := Some (video_info blank_analysis)\<rparr>],
      runners = [''a'' \<mapsto> AwaitInsert]\<rparr>"

section \<open>Scoring a metric\<close>

lemma py_int_nonneg: "0 \<le> x \<Longrightarrow> py_int x = \<lfloor>x\<rfloor>"
  by (simp add: py_int_def)

lemma draw_of_two:
  assumes "0 \<le> r" and "r < 1"
  shows "py_int (r * 2) \<in> {0, 1}"
proof -
  from assms have "0 \<le> \<lfloor>r * 2\<rfloor>" and "\<lfloor>r * 2\<rfloor> < 2"
    by (simp_all add: floor_less_iff)
  then have "\<lfloor>r * 2\<rfloor> = 0 \<or> \<lfloor>r * 2\<rfloor> = 1" by linarith
  with assms show ?thesis by (simp add: py_int_def)
qed

lemma draw_of_three:
  assumes "0 \<le> r" and "r < 1"
  shows "py_int (r * 3) \<in> {0, 1, 2}"
proof -
  from assms have "0 \<le> \<lfloor>r * 3\<rfloor>" and "\<lfloor>r * 3\<rfloor> < 3"
    by (simp_all add: floor_less_iff)
  then have "\<lfloor>r * 3\<rfloor> = 0 \<or> \<lfloor>r * 3\<rfloor> = 1 \<or> \<lfloor>r * 3\<rfloor> = 2" by linarith
  with assms show ?thesis by (simp add: py_int_def)
qed

text \<open>
  C1. With a draw in the half-open unit interval, \<^verbatim>\<open>_score_metric\<close> returns 1 for the
  value 0; for any other value it returns 9 or 10 inside the excellent range (bounds
  included), else 6, 7 or 8 inside the good range (bounds included), else
  \<open>max 1 (6 - \<lfloor>\<bar>value - center\<bar> / 10\<rfloor>)\<close> with the midpoint of the excellent range as
  center.
\<close>

theorem score_metric_bands:
  assumes "0 \<le> g 0" and "g 0 < 1"
  shows "(v = 0 \<longrightarrow> fst (score_metric v th g) = 1) \<and>
    (v \<noteq> 0 \<and> fst (excellent th) \<le> v \<and> v \<le> snd (excellent th) \<longrightarrow>
       fst (score_metric v th g) \<in> {9, 10}) \<and>
    (v \<noteq> 0 \<and> \<not> (fst (excellent th) \<le> v \<and> v \<le> snd (excellent th)) \<and>
       fst (good th) \<le> v \<and> v \<le> snd (good th) \<longrightarrow>
       fst (score_metric v th g) \<in> {6, 7, 8}) \<and>
    (v \<noteq> 0 \<and> \<not> (fst (excellent th) \<le> v \<and> v \<le> snd (excellent th)) \<and>
       \<not> (fst (good th) \<le> v \<and> v \<le> snd (good th)) \<longrightarrow>
       fst (score_metric v th g) =
         max 1 (6 - \<lfloor>\<bar>v - (fst (excellent th) + snd (excellent th)) / 2\<bar> / 10\<rfloor>))"
proof (intro conjI impI)
  assume "v = 0"
  then show "fst (score_metric v th g) = 1" by (simp add: score_metric_def)
next
  assume h: "v \<noteq> 0 \<and> fst (excellent th) \<le> v \<and> v \<le> snd (excellent th)"
  from draw_of_two [OF assms] h show "fst (score_metric v th g) \<in> {9, 10}"
    by (auto simp: score_metric_def random_def Let_def)
next
  assume h: "v \<noteq> 0 \<and> \<not> (fst (excellent th) \<le> v \<and> v \<le> snd (excellent th)) \<and>
       fst (good th) \<le> v \<and> v \<le> snd (good th)"
  from draw_of_three [OF assms] h show "fst (score_metric v th g) \<in> {6, 7, 8}"
    by (auto simp: score_metric_def random_def Let_def)
next
  assume "v \<noteq> 0 \<and> \<not> (fst (excellent th) \<le> v \<and> v \<le> snd (excellent th)) \<and>
       \<not> (fst (good th) \<le> v \<and> v \<le> snd (good th))"
  then have "v \<noteq> 0" and "\<not> (fst (excellent th) \<le> v \<and> v \<le> snd (excellent th))"
    and "\<not> (fst (good th) \<le> v \<and> v \<le> snd (good th))" by blast+
  then show "fst (score_metric v th g) =
         max 1 (6 - \<lfloor>\<bar>v - (fst (excellent th) + snd (excellent th)) / 2\<bar> / 10\<rfloor>)"
    unfolding score_metric_def Let_def
    by (simp only: if_False fst_conv) (simp add: py_int_nonneg)
qed

theorem score_metric_bands_witness:
  "fst (score_metric 0 elbow_angle_thresholds (\<lambda>_. 1 / 2)) = 1 \<and>
   fst (score_metric 110 elbow_angle_thresholds (\<lambda>_. 1 / 2)) \<in> {9, 10} \<and>
   fst (score_metric 95 elbow_angle_thresholds (\<lambda>_. 1 / 2)) \<in> {6, 7, 8} \<and>
   fst (score_metric 80 elbow_angle_thresholds (\<lambda>_. 1 / 2)) = 3"
  using score_metric_bands [of "\<lambda>_. 1 / 2" 0 elbow_angle_thresholds]
    score_metric_bands [of "\<lambda>_. 1 / 2" 110 elbow_angle_thresholds]
    score_metric_bands [of "\<lambda>_. 1 / 2" 95 elbow_angle_thresholds]
    score_metric_bands [of "\<lambda>_. 1 / 2" 80 elbow_angle_thresholds]
  by (simp add: elbow_angle_thresholds_def)

section \<open>The default evaluation\<close>

text \<open>
  C2, as stated, fails on the wording of the feedback line: the program's line is not the
  one the specification quotes, in any of the five categories.
\<close>

theorem default_feedback_line_differs:
  "footwork (feedback (fst (evaluate_technique [] half))) \<noteq> [spec_incomplete_line] \<and>
   head_position (feedback (fst (evaluate_technique [] half))) \<noteq> [spec_incomplete_line] \<and>
   swing_control (feedback (fst (evaluate_technique [] half))) \<noteq> [spec_incomplete_line] \<and>
   balance (feedback (fst (evaluate_technique [] half))) \<noteq> [spec_incomplete_line] \<and>
   follow_through (feedback (fst (evaluate_technique [] half))) \<noteq> [spec_incomplete_line]"
  by (simp add: evaluate_technique_def default_evaluation_def incomplete_line_def
        spec_incomplete_line_def)

text \<open>
  C2, amended. On the empty sequence \<^verbatim>\<open>evaluate_technique\<close> returns the default
  evaluation and draws nothing: each of the five scores is 5, each feedback list is the
  single line \<^verbatim>\<open>Analysis incomplete - please ensure clear video quality\<close>, and the four
  fields of the summary are 0. The function has no failing path.
\<close>

theorem evaluate_empty_default:
  "evaluate_technique [] g = (default_evaluation, g) \<and>
   scores default_evaluation =
     \<lparr>footwork = 5, head_position = 5, swing_control = 5, balance = 5,
      follow_through = 5\<rparr> \<and>
   feedback default_evaluation =
     \<lparr>footwork = [''Analysis incomplete - please ensure clear video quality''],
      head_position = [''Analysis incomplete - please ensure clear video quality''],
      swing_control = [''Analysis incomplete - please ensure clear video quality''],
      balance = [''Analysis incomplete - please ensure clear video quality''],
      follow_through = [''Analysis incomplete - please ensure clear video quality'']\<rparr> \<and>
   metrics_summary default_evaluation =
     \<lparr>elbow_angle = 0, spine_lean = 0, head_alignment = 0, foot_angle = 0\<rparr>"
  by (simp add: evaluate_technique_def default_evaluation_def incomplete_line_def)

section \<open>Aggregation\<close>

lemma eval_summary:
  "ms \<noteq> [] \<Longrightarrow> metrics_summary (fst (evaluate_technique ms g)) = avg_metrics ms"
  by (simp add: evaluate_technique_def Let_def split: prod.splits)

lemma eval_head:
  "ms \<noteq> [] \<Longrightarrow>
   head_position (scores (fst (evaluate_technique ms g))) =
     head_score (head_alignment (avg_metrics ms))"
  by (simp add: evaluate_technique_def Let_def split: prod.splits)

text \<open>Reading a list through the positions that pass a test is filtering the list.\<close>

lemma index_filter:
  "map (\<lambda>i. f (vs ! i)) (filter (\<lambda>i. P (vs ! i)) [0..<length vs]) = map f (filter P vs)"
proof (induction vs rule: rev_induct)
  case Nil
  show ?case by simp
next
  case (snoc x xs)
  have same: "filter (\<lambda>i. P ((xs @ [x]) ! i)) [0..<length xs] =
      filter (\<lambda>i. P (xs ! i)) [0..<length xs]"
    by (rule filter_cong) (simp_all add: nth_append)
  have "map (\<lambda>i. f ((xs @ [x]) ! i)) (filter (\<lambda>i. P (xs ! i)) [0..<length xs])
      = map (\<lambda>i. f (xs ! i)) (filter (\<lambda>i. P (xs ! i)) [0..<length xs])"
    by (rule map_cong) (auto simp: nth_append)
  with same snoc show ?case by simp
qed

lemma positive_values_field:
  "positive_values ms k = map fin_val (filter gt0 (field_values ms k))"
  by (simp add: positive_values_def field_values_def filter_map comp_def)

lemma avg_metric_spec: "avg_metric ms k = spec_field_mean (field_values ms k)"
proof -
  let ?vs = "field_values ms k"
  let ?idx = "filter (\<lambda>i. gt0 (?vs ! i)) [0..<length ?vs]"
  have m: "map (\<lambda>i. fin_val (?vs ! i)) ?idx = positive_values ms k"
    by (simp add: index_filter positive_values_field)
  then have l: "length ?idx = length (positive_values ms k)"
    by (metis length_map)
  then have e: "?idx = [] \<longleftrightarrow> positive_values ms k = []"
    by (metis length_0_conv)
  show ?thesis
    unfolding avg_metric_def spec_field_mean_def Let_def np_mean_def
    using m l e by simp
qed

text \<open>
  C3. For a non-empty sequence of frame metrics, each of the four fields of the summary is
  the mean of that field's values greater than zero over all records, and 0 when no
  record has such a value. A missing key reads as 0 and not-a-number is not greater
  than zero, so neither is counted.
\<close>

theorem aggregate_is_positive_mean:
  "all_metrics \<noteq> [] \<Longrightarrow>
   metrics_summary (fst (evaluate_technique all_metrics g)) =
     \<lparr>elbow_angle = spec_field_mean (field_values all_metrics ''elbow_angle''),
      spine_lean = spec_field_mean (field_values all_metrics ''spine_lean''),
      head_alignment = spec_field_mean (field_values all_metrics ''head_alignment''),
      foot_angle = spec_field_mean (field_values all_metrics ''foot_angle'')\<rparr>"
  by (simp add: eval_summary avg_metrics_def avg_metric_spec)

lemma upt_three: "[0..<3] = [0, 1, 2]"
  by (simp add: upt_rec)

theorem aggregate_is_positive_mean_witness:
  "metrics_summary (fst (evaluate_technique test_frames half)) =
     \<lparr>elbow_angle = 235 / 2, spine_lean = 21, head_alignment = 1 / 2, foot_angle = 29\<rparr>"
proof -
  have "metrics_summary (fst (evaluate_technique test_frames half)) =
     \<lparr>elbow_angle = spec_field_mean (field_values test_frames ''elbow_angle''),
      spine_lean = spec_field_mean (field_values test_frames ''spine_lean''),
      head_alignment = spec_field_mean (field_values test_frames ''head_alignment''),
      foot_angle = spec_field_mean (field_values test_frames ''foot_angle'')\<rparr>"
    by (rule aggregate_is_positive_mean) (simp add: test_frames_def)
  also have "\<dots> =
     \<lparr>elbow_angle = 235 / 2, spine_lean = 21, head_alignment = 1 / 2, foot_angle = 29\<rparr>"
    by (simp add: spec_field_mean_def field_values_def test_frames_def dict_get_def
          upt_three)
  finally show ?thesis .
qed

section \<open>The head position score\<close>

lemma head_score_clamp: "head_score a = py_round (spec_clamp (10 - a * 10) 1 10)"
  by (simp add: head_score_def spec_clamp_def max_def min_def)

lemma head_score_values: "head_score 0 = 10 \<and> head_score 1 = 1 \<and> head_score (1 / 2) = 5"
  by (simp add: head_score_def py_round_def)

text \<open>
  C8. The head position score of an aggregate head alignment \<open>a\<close> is Python's
  \<^verbatim>\<open>round\<close> of \<open>10 - a * 10\<close> clamped into the interval from 1 to 10: 10 for
  \<open>a = 0\<close>, 1 for \<open>a = 1\<close>, 5 for \<open>a = 1/2\<close>; and this is the score that
  \<^verbatim>\<open>evaluate_technique\<close> reports for the head alignment of its summary.
\<close>

theorem head_position_score:
  "head_score a = py_round (spec_clamp (10 - a * 10) 1 10) \<and>
   head_score 0 = 10 \<and> head_score 1 = 1 \<and> head_score (1 / 2) = 5 \<and>
   (all_metrics \<noteq> [] \<longrightarrow>
      head_position (scores (fst (evaluate_technique all_metrics g))) =
        py_round (spec_clamp
          (10 - head_alignment (metrics_summary (fst (evaluate_technique all_metrics g))) * 10)
          1 10))"
  using head_score_clamp head_score_values
  by (simp add: eval_head eval_summary)

theorem head_position_score_witness:
  "head_position (scores (fst (evaluate_technique test_frames half))) = 5"
proof -
  have ne: "test_frames \<noteq> []" by (simp add: test_frames_def)
  have "head_alignment (metrics_summary (fst (evaluate_technique test_frames half))) = 1 / 2"
    unfolding eval_summary [OF ne]
    by (simp add: avg_metrics_def avg_metric_def positive_values_def
          test_frames_def dict_get_def np_mean_def)
  with head_position_score [of _ test_frames half] ne show ?thesis
    by (simp add: spec_clamp_def py_round_def)
qed

section \<open>Angles\<close>

lemma atan2_quadrant:
  assumes "0 \<le> y" and "0 \<le> x"
  shows "0 \<le> atan2 y x \<and> atan2 y x \<le> pi / 2"
proof (cases "0 < x")
  case True
  with assms have "0 \<le> y / x" by simp
  then have "0 \<le> arctan (y / x)" by (simp add: zero_le_arctan_iff)
  moreover have "arctan (y / x) < pi / 2" by (rule arctan_ubound)
  ultimately show ?thesis using True by (simp add: atan2_def)
next
  case False
  with assms have "x = 0" by simp
  then show ?thesis using assms by (simp add: atan2_def)
qed

lemma degrees_quadrant:
  assumes "0 \<le> r" and "r \<le> pi / 2"
  shows "0 \<le> degrees r \<and> degrees r \<le> 90"
proof -
  have p: "0 < pi" by simp
  from assms p have "r * 180 \<le> 90 * pi" by simp
  with p have "r * 180 / pi \<le> 90" by (simp add: pos_divide_le_eq)
  with assms show ?thesis by (simp add: degrees_def)
qed

lemma degrees_atan2_abs:
  "0 \<le> degrees (atan2 \<bar>y\<bar> \<bar>x\<bar>) \<and> degrees (atan2 \<bar>y\<bar> \<bar>x\<bar>) \<le> 90"
  using atan2_quadrant [of "\<bar>y\<bar>" "\<bar>x\<bar>"] degrees_quadrant by simp

text \<open>
  C6, as stated, fails on equal positions: \<^verbatim>\<open>math.atan2(0, 0)\<close> is 0 and raises
  nothing, so the result is 90, not the 0.0 of the handler.
\<close>

theorem spine_lean_equal_points:
  "calculate_spine_lean (1 / 2, 1 / 2, 0) (1 / 2, 1 / 2, 0) = 90 \<and>
   calculate_spine_lean (1 / 2, 1 / 2, 0) (1 / 2, 1 / 2, 0) \<noteq> 0"
  by (simp add: calculate_spine_lean_def px_def py_def atan2_def degrees_def)

text \<open>
  C6, amended. For hip and shoulder at the same place of the image
  \<^verbatim>\<open>calculate_spine_lean\<close> returns 90; for every hip and shoulder the result lies
  between 0 and 90 degrees and is \<open>\<bar>90 - atan2 \<bar>dy\<bar> \<bar>dx\<bar>\<bar>\<close>, the angle in degrees.
\<close>

theorem spine_lean_range:
  "calculate_spine_lean (x, y, z) (x, y, z') = 90 \<and>
   0 \<le> calculate_spine_lean hip shoulder \<and> calculate_spine_lean hip shoulder \<le> 90 \<and>
   calculate_spine_lean hip shoulder =
     \<bar>90 - degrees (atan2 \<bar>py shoulder - py hip\<bar> \<bar>px shoulder - px hip\<bar>)\<bar>"
proof -
  have "calculate_spine_lean (x, y, z) (x, y, z') = 90"
    by (simp add: calculate_spine_lean_def px_def py_def atan2_def degrees_def)
  moreover have "0 \<le> calculate_spine_lean hip shoulder \<and>
      calculate_spine_lean hip shoulder \<le> 90"
    using degrees_atan2_abs [of "py shoulder - py hip" "px shoulder - px hip"]
    by (simp add: calculate_spine_lean_def Let_def)
  ultimately show ?thesis by (simp add: calculate_spine_lean_def Let_def)
qed

text \<open>
  C10. \<^verbatim>\<open>calculate_foot_angle\<close> returns a value between 0 and 90 degrees for every
  ankle and every reference point, a falsy one included: both differences reach
  \<^verbatim>\<open>atan2\<close> in absolute value.
\<close>

theorem foot_angle_range:
  "0 \<le> calculate_foot_angle ankle toe \<and> calculate_foot_angle ankle toe \<le> 90"
  unfolding calculate_foot_angle_def Let_def by (rule degrees_atan2_abs)

lemma np_norm_zero: "np_norm v = 0 \<longleftrightarrow> fst v = 0 \<and> snd v = 0"
  by (simp add: np_norm_def sum_power2_eq_zero_iff)

lemma clipped_quotient_nan: "clipped_quotient num den = NaN \<longleftrightarrow> den = 0 \<and> num = 0"
  by (simp add: clipped_quotient_def)

lemma arccos_degrees_nan: "arccos_degrees c = NaN \<longleftrightarrow> c = NaN"
  by (cases c) simp_all

text \<open>
  \<^verbatim>\<open>calculate_angle\<close> returns not-a-number exactly when one of the two vectors has
  length zero.
\<close>

lemma calculate_angle_nan_iff:
  "calculate_angle p1 p2 p3 = NaN \<longleftrightarrow>
     (px p1 = px p2 \<and> py p1 = py p2) \<or> (px p3 = px p2 \<and> py p3 = py p2)"
  unfolding calculate_angle_def Let_def arccos_degrees_nan clipped_quotient_nan
  by (auto simp: np_norm_zero np_dot_def)

text \<open>With the first and the third point equal, and away from the vertex, the angle is 0.\<close>

lemma calculate_angle_same_ends:
  assumes "px p \<noteq> px p2 \<or> py p \<noteq> py p2"
  shows "calculate_angle p p2 p = Fin 0"
proof -
  let ?v = "(px p - px p2, py p - py p2)"
  from assms have nz: "np_norm ?v \<noteq> 0" by (auto simp: np_norm_zero)
  have "np_dot ?v ?v = np_norm ?v * np_norm ?v"
    by (simp add: np_dot_def np_norm_def power2_eq_square)
  with nz have "clipped_quotient (np_dot ?v ?v) (np_norm ?v * np_norm ?v) = Fin 1"
    by (simp add: clipped_quotient_def)
  then show ?thesis by (simp add: calculate_angle_def Let_def degrees_def)
qed

text \<open>
  C7. With the first point on the vertex the vector between them has length zero: numpy
  divides 0 by 0, which gives not-a-number and raises nothing, so the handler's 0.0 is
  not returned.
\<close>

theorem calculate_angle_zero_length:
  "calculate_angle (1 / 2, 1 / 2, 0) (1 / 2, 1 / 2, 0) (7 / 10, 1 / 2, 0) = NaN \<and>
   calculate_angle (1 / 2, 1 / 2, 0) (1 / 2, 1 / 2, 0) (7 / 10, 1 / 2, 0) \<noteq> Fin 0"
  by (simp add: calculate_angle_def px_def py_def np_dot_def np_norm_def
        clipped_quotient_def)

section \<open>The job runner\<close>

lemma frame_loop_quiet:
  "no_landmarks fs \<Longrightarrow> no_frame_error fs \<Longrightarrow>
   frame_loop fs w acc n = Inr (acc, n + length fs)"
proof (induction fs arbitrary: n)
  case Nil
  show ?case by simp
next
  case (Cons f fs)
  from Cons.prems have f: "f = Frame None"
    by (cases f rule: has_landmarks.cases) (simp_all add: no_landmarks_def no_frame_error_def)
  from Cons.prems have "no_landmarks fs" "no_frame_error fs"
    by (simp_all add: no_landmarks_def no_frame_error_def)
  with Cons.IH [of "Suc n"] f show ?case by simp
qed

lemma analysis_failed_nonempty: "analysis_failed msg \<noteq> []"
  by (simp add: analysis_failed_def)

text \<open>
  \<^verbatim>\<open>analyze_video_file\<close> raises in four ways: the file is missing, it does not open,
  a frame raises, or the evaluation file cannot be written. The text always carries the
  prefix.
\<close>

lemma analyze_raises_text:
  "analyze_video_file fs se out g path = Inl msg \<Longrightarrow> \<exists>m. msg = analysis_failed m"
  by (auto simp: analyze_video_file_def Let_def
      split: option.splits file_content.splits sum.splits prod.splits)

lemma analyze_no_landmarks:
  assumes "fs path = Some (Video cap)"
    and "no_landmarks (frames cap)" and "no_frame_error (frames cap)"
  shows "analyze_video_file fs None out g path =
    Inr (\<lparr>evaluation = default_evaluation,
          video_info =
            \<lparr>frames_total = frame_count cap, frames_processed = length (frames cap),
             frames_with_pose = 0, info_fps = fps cap,
             duration_seconds =
               (if 0 < fps cap then of_int (frame_count cap) / fps cap else 0)\<rparr>,
          output_files = \<lparr>evaluation_json = out, input_video = path\<rparr>\<rparr>, g)"
  using assms
  by (simp add: analyze_video_file_def frame_loop_quiet evaluate_technique_def)

text \<open>
  C4. When the job has a record and \<^verbatim>\<open>analyze_video_file\<close> raises (missing file,
  unreadable video, an exception while a frame is read or its pose extracted, or while
  the evaluation is saved), no exception leaves the runner, and the record ends with
  status \<open>failed\<close>, the non-empty text of the exception as error message, and
  \<open>completed_at\<close> set. The file is removed exactly when it is an upload that exists
  and the removal succeeds; a removal that raises leaves the file and nothing else.
\<close>

theorem failed_run:
  assumes "store aid = Some j"
    and "analyze_video_file (files e) (save_error e) (output_file e) g video_path = Inl msg"
  shows "\<not> escaped (process_video_analysis e g store aid video_path is_uploaded) \<and>
    map_option status
      (final_store (process_video_analysis e g store aid video_path is_uploaded) aid)
      = Some ''failed'' \<and>
    map_option error_message
      (final_store (process_video_analysis e g store aid video_path is_uploaded) aid)
      = Some (Some msg) \<and> msg \<noteq> [] \<and>
    map_option completed_at
      (final_store (process_video_analysis e g store aid video_path is_uploaded) aid)
      = Some (Some (utcnow e 0)) \<and>
    final_files (process_video_analysis e g store aid video_path is_uploaded) =
      (if is_uploaded \<and> files e video_path \<noteq> None \<and> remove_ok e
       then (files e)(video_path := None) else files e)"
proof -
  from assms(2) obtain m where "msg = analysis_failed m"
    using analyze_raises_text by blast
  then have ne: "msg \<noteq> []" by (simp add: analysis_failed_nonempty)
  from assms have run: "process_video_analysis e g store aid video_path is_uploaded =
      on_failure e (store(aid \<mapsto> j\<lparr>status := ''processing''\<rparr>)) aid video_path
        is_uploaded msg (utcnow e 0)"
    by (simp add: process_video_analysis_def set_processing_def)
  show ?thesis unfolding run using ne
    by (auto simp: on_failure_def write_failed_def)
qed

theorem failed_run_witness:
  "map_option status (final_store (process_video_analysis
       (quiet_env\<lparr>files := [''uploaded_a.mp4'' \<mapsto> NotVideo]\<rparr>) half one_job ''a''
       ''uploaded_a.mp4'' True) ''a'')
     = Some ''failed'' \<and>
   map_option error_message (final_store (process_video_analysis
       (quiet_env\<lparr>files := [''uploaded_a.mp4'' \<mapsto> NotVideo]\<rparr>) half one_job ''a''
       ''uploaded_a.mp4'' True) ''a'')
     = Some (Some ''Video analysis failed: Could not open video file'') \<and>
   map_option completed_at (final_store (process_video_analysis
       (quiet_env\<lparr>files := [''uploaded_a.mp4'' \<mapsto> NotVideo]\<rparr>) half one_job ''a''
       ''uploaded_a.mp4'' True) ''a'')
     = Some (Some 100) \<and>
   final_files (process_video_analysis
       (quiet_env\<lparr>files := [''uploaded_a.mp4'' \<mapsto> NotVideo]\<rparr>) half one_job ''a''
       ''uploaded_a.mp4'' True) ''uploaded_a.mp4'' = None"
  using failed_run [of one_job "''a''" "uploaded_job ''a'' ''shot.mp4'' 7"
      "quiet_env\<lparr>files := [''uploaded_a.mp4'' \<mapsto> NotVideo]\<rparr>" half "''uploaded_a.mp4''"
      "''Video analysis failed: Could not open video file''" True]
  by (simp add: quiet_env_def one_job_def analyze_video_file_def analysis_failed_def)

text \<open>
  An insert into the database that raises is handled by the same handler: the record,
  already written as completed, ends as failed with the text of that exception, and keeps
  the scores.
\<close>

lemma insert_failure_run:
  assumes "store aid = Some j"
    and "analyze_video_file (files e) (save_error e) (output_file e) g video_path =
      Inr (result, g')"
    and "db_error e = Some msg"
  shows "map_option status
      (final_store (process_video_analysis e g store aid video_path is_uploaded) aid)
      = Some ''failed'' \<and>
    map_option error_message
      (final_store (process_video_analysis e g store aid video_path is_uploaded) aid)
      = Some (Some msg) \<and>
    map_option completed_at
      (final_store (process_video_analysis e g store aid video_path is_uploaded) aid)
      = Some (Some (utcnow e 1)) \<and>
    map_option job_scores
      (final_store (process_video_analysis e g store aid video_path is_uploaded) aid)
      = Some (Some (scores (evaluation result)))"
  using assms
  by (simp add: process_video_analysis_def set_processing_def write_completed_def
        on_failure_def write_failed_def)

text \<open>
  C5, as stated, fails in three ways on a readable video in which no frame yields
  landmarks: the insert into the database raises, the evaluation file cannot be written,
  or reading or processing a frame raises. Each time the job ends as failed.
\<close>

theorem no_landmarks_run_fails:
  "files (quiet_env\<lparr>db_error := Some ''connection refused''\<rparr>) ''uploaded_a.mp4'' =
     Some (Video blank_clip) \<and>
   no_landmarks (frames blank_clip) \<and>
   map_option status (final_store (process_video_analysis
      (quiet_env\<lparr>db_error := Some ''connection refused''\<rparr>) half one_job ''a''
      ''uploaded_a.mp4'' True) ''a'')
     = Some ''failed'' \<and>
   map_option status (final_store (process_video_analysis
      (quiet_env\<lparr>save_error := Some ''No space left on device''\<rparr>) half one_job ''a''
      ''uploaded_a.mp4'' True) ''a'')
     = Some ''failed'' \<and>
   no_landmarks (frames broken_clip) \<and>
   map_option status (final_store (process_video_analysis
      (quiet_env\<lparr>files := [''uploaded_a.mp4'' \<mapsto> Video broken_clip]\<rparr>) half one_job ''a''
      ''uploaded_a.mp4'' True) ''a'')
     = Some ''failed''"
  by (simp add: quiet_env_def blank_clip_def broken_clip_def no_landmarks_def one_job_def
      process_video_analysis_def set_processing_def analyze_video_file_def
      evaluate_technique_def write_completed_def on_failure_def write_failed_def)


text \<open>
  C5, amended. For a job with a record and a readable video in which no frame yields
  landmarks, provided that reading and processing the frames, writing the evaluation
  file and the insert into the database raise nothing, the run ends with status
  \<open>completed\<close> and the default evaluation attached, no exception leaves the runner
  and the file stays.
\<close>

theorem no_landmarks_run_completed:
  assumes "store aid = Some j"
    and "files e video_path = Some (Video cap)"
    and "no_landmarks (frames cap)" and "no_frame_error (frames cap)"
    and "save_error e = None" and "db_error e = None"
  shows "\<not> escaped (process_video_analysis e g store aid video_path is_uploaded) \<and>
    map_option status
      (final_store (process_video_analysis e g store aid video_path is_uploaded) aid)
      = Some ''completed'' \<and>
    map_option job_scores
      (final_store (process_video_analysis e g store aid video_path is_uploaded) aid)
      = Some (Some (scores default_evaluation)) \<and>
    map_option job_feedback
      (final_store (process_video_analysis e g store aid video_path is_uploaded) aid)
      = Some (Some (feedback default_evaluation)) \<and>
    map_option job_metrics_summary
      (final_store (process_video_analysis e g store aid video_path is_uploaded) aid)
      = Some (Some (metrics_summary default_evaluation)) \<and>
    final_files (process_video_analysis e g store aid video_path is_uploaded) = files e"
  using assms
  by (simp add: process_video_analysis_def set_processing_def analyze_no_landmarks
      write_completed_def)

theorem no_landmarks_run_completed_witness:
  "map_option status (final_store (process_video_analysis quiet_env half one_job ''a''
      ''uploaded_a.mp4'' True) ''a'')
     = Some ''completed'' \<and>
   map_option job_scores (final_store (process_video_analysis quiet_env half one_job ''a''
      ''uploaded_a.mp4'' True) ''a'')
     = Some (Some \<lparr>footwork = 5, head_position = 5, swing_control = 5, balance = 5,
          follow_through = 5\<rparr>)"
  using no_landmarks_run_completed [of one_job "''a''" "uploaded_job ''a'' ''shot.mp4'' 7"
      quiet_env "''uploaded_a.mp4''" blank_clip half True]
  by (simp add: quiet_env_def blank_clip_def no_landmarks_def no_frame_error_def
      one_job_def default_evaluation_def)

section \<open>What a poller observes\<close>

text \<open>A run of the runner is a path of the step relation, from its start to its return.\<close>

lemma run_is_a_path:
  assumes j: "sys_store s aid = Some j" and r: "runners s aid = Some Scheduled"
  shows "\<exists>s'. step\<^sup>*\<^sup>* s s' \<and> runners s' aid = Some Returned \<and>
     sys_store s' =
       final_store (process_video_analysis e g (sys_store s) aid video_path is_uploaded)"
proof -
  let ?st1 = "(sys_store s)(aid \<mapsto> j\<lparr>status := ''processing''\<rparr>)"
  let ?s1 = "\<lparr>sys_store = ?st1, runners = (runners s)(aid \<mapsto> AwaitAnalysis)\<rparr>"
  have sp: "set_processing (sys_store s) aid = Some ?st1"
    using j by (simp add: set_processing_def)
  have s1: "step s ?s1" by (rule begin_run [OF r sp])
  have r1: "runners ?s1 aid = Some AwaitAnalysis" by simp
  show ?thesis
  proof (cases "analyze_video_file (files e) (save_error e) (output_file e) g video_path")
    case (Inl msg)
    let ?st2 = "?st1(aid \<mapsto> j\<lparr>status := ''failed'', error_message := Some msg,
        completed_at := Some (utcnow e 0)\<rparr>)"
    have wf: "write_failed (sys_store ?s1) aid msg (utcnow e 0) = Some ?st2"
      by (simp add: write_failed_def)
    have "step ?s1 \<lparr>sys_store = ?st2, runners = (runners ?s1)(aid \<mapsto> Returned)\<rparr>"
      by (rule analysis_raises [OF r1 wf])
    with s1 have "step\<^sup>*\<^sup>* s \<lparr>sys_store = ?st2, runners = (runners ?s1)(aid \<mapsto> Returned)\<rparr>"
      by (meson rtranclp.rtrancl_into_rtrancl rtranclp.rtrancl_refl)
    moreover have
      "final_store (process_video_analysis e g (sys_store s) aid video_path is_uploaded) = ?st2"
      using Inl sp by (simp add: process_video_analysis_def on_failure_def write_failed_def)
    ultimately show ?thesis by force
  next
    case (Inr p)
    obtain result g' where p: "p = (result, g')" by (cases p)
    let ?jc = "j\<lparr>status := ''completed'',
              job_scores := Some (scores (evaluation result)),
              job_feedback := Some (feedback (evaluation result)),
              job_metrics_summary := Some (metrics_summary (evaluation result)),
              completed_at := Some (utcnow e 0),
              job_output_files := Some (output_files result),
              job_video_info := Some (video_info result)\<rparr>"
    let ?st2 = "?st1(aid \<mapsto> ?jc)"
    let ?s2 = "\<lparr>sys_store = ?st2, runners = (runners ?s1)(aid \<mapsto> AwaitInsert)\<rparr>"
    have wc: "write_completed (sys_store ?s1) aid result (utcnow e 0) = Some ?st2"
      by (simp add: write_completed_def)
    have s2: "step ?s1 ?s2" by (rule analysis_returns [OF r1 wc])
    have r2: "runners ?s2 aid = Some AwaitInsert" by simp
    show ?thesis
    proof (cases "db_error e")
      case None
      have "step ?s2 \<lparr>sys_store = sys_store ?s2, runners = (runners ?s2)(aid \<mapsto> Returned)\<rparr>"
        by (rule insert_returns [OF r2])
      with s1 s2 have
        "step\<^sup>*\<^sup>* s \<lparr>sys_store = sys_store ?s2, runners = (runners ?s2)(aid \<mapsto> Returned)\<rparr>"
        by (meson rtranclp.rtrancl_into_rtrancl rtranclp.rtrancl_refl)
      moreover have
        "final_store (process_video_analysis e g (sys_store s) aid video_path is_uploaded) = ?st2"
        using Inr p sp None by (simp add: process_video_analysis_def write_completed_def)
      ultimately show ?thesis by force
    next
      case (Some msg)
      let ?st3 = "?st2(aid \<mapsto> ?jc\<lparr>status := ''failed'', error_message := Some msg,
          completed_at := Some (utcnow e 1)\<rparr>)"
      have wf: "write_failed (sys_store ?s2) aid msg (utcnow e 1) = Some ?st3"
        by (simp add: write_failed_def)
      have "step ?s2 \<lparr>sys_store = ?st3, runners = (runners ?s2)(aid \<mapsto> Returned)\<rparr>"
        by (rule insert_raises [OF r2 wf])
      with s1 s2 have
        "step\<^sup>*\<^sup>* s \<lparr>sys_store = ?st3, runners = (runners ?s2)(aid \<mapsto> Returned)\<rparr>"
        by (meson rtranclp.rtrancl_into_rtrancl rtranclp.rtrancl_refl)
      moreover have
        "final_store (process_video_analysis e g (sys_store s) aid video_path is_uploaded) = ?st3"
        using Inr p sp Some
        by (simp add: process_video_analysis_def write_completed_def on_failure_def
              write_failed_def)
      ultimately show ?thesis by force
    qed
  qed
qed

lemma invariant_step:
  assumes "step s s'" and "runner_invariant s"
  shows "runner_invariant s'"
  using assms
proof (cases rule: step.cases)
  case (submit_upload aid name t)
  with assms(2) show ?thesis
    by (auto simp: runner_invariant_def uploaded_job_def no_result_def)
next
  case (submit_url aid url t)
  with assms(2) show ?thesis
    by (auto simp: runner_invariant_def url_job_def no_result_def)
next
  case (begin_run aid st)
  with assms(2) show ?thesis
    by (fastforce simp: runner_invariant_def set_processing_def no_result_def
          split: option.splits if_splits)
next
  case (analysis_returns aid result t st)
  with assms(2) show ?thesis
    by (fastforce simp: runner_invariant_def write_completed_def result_attached_def
          split: option.splits if_splits)
next
  case (analysis_raises aid msg t st)
  with assms(2) show ?thesis
    by (fastforce simp: runner_invariant_def write_failed_def no_result_def
          split: option.splits if_splits)
next
  case (insert_returns aid)
  with assms(2) show ?thesis
    by (fastforce simp: runner_invariant_def split: option.splits if_splits)
next
  case (insert_raises aid msg t st)
  with assms(2) show ?thesis
    by (fastforce simp: runner_invariant_def write_failed_def result_attached_def
          split: option.splits if_splits)
qed

lemma reachable_invariant: "reachable s \<Longrightarrow> runner_invariant s"
proof (induction rule: reachable.induct)
  case start
  show ?case by (simp add: runner_invariant_def initial_system_def)
next
  case (later s s')
  then show ?case using invariant_step by blast
qed

lemma position_agrees_facts:
  assumes "position_agrees p j"
  shows "(status j = ''completed'' \<longrightarrow> result_attached j) \<and>
    (result_attached j \<or> no_result j) \<and>
    (result_attached j \<longrightarrow> status j = ''completed'' \<or> status j = ''failed'')"
  using assms by (cases p) (auto simp: no_result_def result_attached_def)

lemma invariant_at:
  assumes "runner_invariant s" and "sys_store s a = Some j" and "runners s a = Some p"
  shows "position_agrees p j"
proof -
  from assms(1,2) obtain q where "runners s a = Some q" and "position_agrees q j"
    unfolding runner_invariant_def by blast
  with assms(3) show ?thesis by simp
qed

lemma appears_together:
  assumes "step s s'" and "runner_invariant s"
  shows "(\<not> shows_result (sys_store s aid) \<and> shows_result (sys_store s' aid)) =
    (\<not> shows_completed (sys_store s aid) \<and> shows_completed (sys_store s' aid))"
  using assms
proof (cases rule: step.cases)
  case (submit_upload a name t)
  then show ?thesis
    by (auto simp: shows_result_def shows_completed_def uploaded_job_def result_attached_def
          split: if_splits option.splits)
next
  case (submit_url a url t)
  then show ?thesis
    by (auto simp: shows_result_def shows_completed_def url_job_def result_attached_def
          split: if_splits option.splits)
next
  case (begin_run a st)
  from begin_run(3) obtain j where j: "sys_store s a = Some j"
    by (auto simp: set_processing_def split: option.splits)
  have "position_agrees Scheduled j"
    by (rule invariant_at [OF assms(2) j begin_run(2)])
  with begin_run j show ?thesis
    by (auto simp: shows_result_def shows_completed_def set_processing_def
          result_attached_def no_result_def
          split: if_splits option.splits)
next
  case (analysis_returns a result t st)
  from analysis_returns(3) obtain j where j: "sys_store s a = Some j"
    by (auto simp: write_completed_def split: option.splits)
  have "position_agrees AwaitAnalysis j"
    by (rule invariant_at [OF assms(2) j analysis_returns(2)])
  with analysis_returns j show ?thesis
    by (auto simp: shows_result_def shows_completed_def write_completed_def
          result_attached_def no_result_def
          split: if_splits option.splits)
next
  case (analysis_raises a msg t st)
  from analysis_raises(3) obtain j where j: "sys_store s a = Some j"
    by (auto simp: write_failed_def split: option.splits)
  have "position_agrees AwaitAnalysis j"
    by (rule invariant_at [OF assms(2) j analysis_raises(2)])
  with analysis_raises j show ?thesis
    by (auto simp: shows_result_def shows_completed_def write_failed_def
          result_attached_def no_result_def
          split: if_splits option.splits)
next
  case (insert_returns a)
  then show ?thesis by simp
next
  case (insert_raises a msg t st)
  from insert_raises(3) obtain j where j: "sys_store s a = Some j"
    by (auto simp: write_failed_def split: option.splits)
  have "position_agrees AwaitInsert j"
    by (rule invariant_at [OF assms(2) j insert_raises(2)])
  with insert_raises j show ?thesis
    by (auto simp: shows_result_def shows_completed_def write_failed_def
          result_attached_def split: if_splits option.splits)
qed

text \<open>
  C9. In every state of the store that a poller can read, a record that
  \<^verbatim>\<open>get_analysis_result\<close> returns with status \<open>completed\<close> carries its scores, its
  feedback and its metrics summary. No record ever shows a part of a result: the three
  are all there or all missing, and they are there only under the status \<open>completed\<close>
  or, after an insert that raised, \<open>failed\<close>. And in each step of the system the result
  of a job becomes visible exactly when its status becomes \<open>completed\<close>: both are
  written by one statement, between two awaits.
\<close>

theorem completed_has_result:
  assumes "reachable s"
  shows "(get_analysis_result (sys_store s) aid = Some j \<and> status j = ''completed'' \<longrightarrow>
       result_attached j) \<and>
    (get_analysis_result (sys_store s) aid = Some j \<longrightarrow> result_attached j \<or> no_result j) \<and>
    (get_analysis_result (sys_store s) aid = Some j \<and> result_attached j \<longrightarrow>
       status j = ''completed'' \<or> status j = ''failed'') \<and>
    (step s s' \<longrightarrow>
       (\<not> shows_result (get_analysis_result (sys_store s) aid) \<and>
        shows_result (get_analysis_result (sys_store s') aid)) =
       (\<not> shows_completed (get_analysis_result (sys_store s) aid) \<and>
        shows_completed (get_analysis_result (sys_store s') aid)))"
proof -
  from assms have inv: "runner_invariant s" by (rule reachable_invariant)
  have rec: "get_analysis_result (sys_store s) aid = Some j \<Longrightarrow> \<exists>p. position_agrees p j"
    using inv by (auto simp: runner_invariant_def get_analysis_result_def)
  have together: "step s s' \<Longrightarrow>
       (\<not> shows_result (get_analysis_result (sys_store s) aid) \<and>
        shows_result (get_analysis_result (sys_store s') aid)) =
       (\<not> shows_completed (get_analysis_result (sys_store s) aid) \<and>
        shows_completed (get_analysis_result (sys_store s') aid))"
    unfolding get_analysis_result_def by (rule appears_together [OF _ inv])
  from rec together show ?thesis
    using position_agrees_facts by blast
qed

lemma processing_system_reachable: "reachable processing_system"
proof -
  let ?j = "uploaded_job ''a'' ''shot.mp4'' 7"
  have "reachable \<lparr>sys_store = [''a'' \<mapsto> ?j], runners = [''a'' \<mapsto> Scheduled]\<rparr>"
    using later [OF start submit_upload [of initial_system "''a''" "''shot.mp4''" 7]]
    by (simp add: initial_system_def)
  from later [OF this begin_run [of _ "''a''" "[''a'' \<mapsto> ?j\<lparr>status := ''processing''\<rparr>]"]]
  show ?thesis
    by (simp add: set_processing_def processing_system_def)
qed

lemma processing_to_polled: "step processing_system polled_system"
  using analysis_returns [of processing_system "''a''" blank_analysis 100 "sys_store polled_system"]
  by (simp add: write_completed_def polled_system_def blank_analysis_def processing_system_def)

lemma polled_system_reachable: "reachable polled_system"
  using later [OF processing_system_reachable processing_to_polled] .

theorem completed_has_result_witness:
  "reachable polled_system \<and>
   map_option status (get_analysis_result (sys_store polled_system) ''a'') = Some ''completed'' \<and>
   map_option result_attached (get_analysis_result (sys_store polled_system) ''a'') = Some True \<and>
   reachable processing_system \<and> step processing_system polled_system \<and>
   \<not> shows_completed (get_analysis_result (sys_store processing_system) ''a'') \<and>
   \<not> shows_result (get_analysis_result (sys_store processing_system) ''a'') \<and>
   shows_completed (get_analysis_result (sys_store polled_system) ''a'') \<and>
   shows_result (get_analysis_result (sys_store polled_system) ''a'')"
proof -
  obtain j where j: "get_analysis_result (sys_store polled_system) ''a'' = Some j"
      "status j = ''completed''"
    by (simp add: polled_system_def get_analysis_result_def)
  have before: "\<not> shows_completed (get_analysis_result (sys_store processing_system) ''a'')"
    by (simp add: shows_completed_def get_analysis_result_def processing_system_def)
  have after: "shows_completed (get_analysis_result (sys_store polled_system) ''a'')"
    using j by (simp add: shows_completed_def)
  from completed_has_result [OF polled_system_reachable, of "''a''" j]
    completed_has_result [OF processing_system_reachable, of "''a''" _ polled_system]
    j before after polled_system_reachable processing_system_reachable processing_to_polled
  show ?thesis by simp
qed

end
